theory Spec2Isabelle
  imports Main
begin

section \<open>The document as the reading library presents it\<close>

text \<open>
  The script \<^verbatim>\<open>extract-docx.py\<close> reads \<^verbatim>\<open>doc.paragraphs\<close> (each with a
  \<^verbatim>\<open>.text\<close>) and \<^verbatim>\<open>doc.tables\<close>, each table with \<^verbatim>\<open>.rows\<close>, each row with
  \<^verbatim>\<open>.cells\<close>, each cell with a \<^verbatim>\<open>.text\<close>.  Text is a \<open>string\<close>; a character
  outside ASCII stands as its UTF-8 bytes, which is what the output file stores
  (\<^verbatim>\<open>encoding='utf-8'\<close>).  Appending a line feed and joining with a tab commute
  with that encoding, so nothing is lost by working on the encoded text.
\<close>

datatype cell = Cell (cell_text: string)

datatype row = Row (cells: "cell list")

datatype table = Table (rows: "row list")

datatype para = Paragraph (para_text: string)

record document =
  paragraphs :: "para list"
  tables :: "table list"

section \<open>The world the script runs in\<close>

text \<open>
  A file is a text file, a well-formed Word container holding a document, or
  something else.  The file system maps paths to files.
\<close>

datatype fsnode = TextFile string | DocxFile document | OtherFile string

type_synonym filesystem = "string \<Rightarrow> fsnode option"

text \<open>The exceptions the script can meet.\<close>

datatype exn =
  ImportError | PackageNotFoundError | BadZipFile | OSError | ValueError | UnicodeEncodeError

text \<open>
  What the host decides and the script cannot:
  \<^item> whether \<^verbatim>\<open>from docx import Document\<close> succeeds;
  \<^item> whether the output path can be opened for writing;
  \<^item> how many calls of \<^verbatim>\<open>f.write\<close> return before one raises, as when the buffer of
    a long output spills onto a failing disk (\<open>None\<close>: all of them return);
  \<^item> how many characters the disk takes when the buffered text is flushed at
    \<^verbatim>\<open>close\<close> (\<open>None\<close>: all of them; \<open>Some 0\<close>: a full disk);
  \<^item> whether the encoding of standard output has the characters outside ASCII that
    the messages of the script start with (UTF-8 has them, cp1252 has not);
  \<^item> the exit status of the command that \<^verbatim>\<open>subprocess.run\<close> launches, and how long
    that command runs.
\<close>

record env =
  docx_installed :: bool
  output_writable :: bool
  write_quota :: "nat option"
  disk_room :: "nat option"
  stdout_unicode :: bool
  shell_status :: int
  command_duration :: nat

text \<open>
  The object returned by \<^verbatim>\<open>open(..., 'w', encoding='utf-8')\<close>: its path, the chunks
  written and not yet flushed, the number of accepted writes, and whether it is closed.
\<close>

record handle =
  h_path :: string
  h_pending :: "string list"
  h_count :: nat
  h_closed :: bool

text \<open>
  The observable state: the file system, the one file object the script creates
  (\<open>None\<close> before \<^verbatim>\<open>open\<close>), what was printed (one entry per call of \<^verbatim>\<open>print\<close>), the
  argument lists handed to \<^verbatim>\<open>subprocess.run\<close>, each with its \<^verbatim>\<open>shell\<close> flag, and the
  time the script has spent blocked in \<^verbatim>\<open>subprocess.run\<close>.
\<close>

record world =
  fs :: filesystem
  out_handle :: "handle option"
  stdout :: "string list"
  launched :: "(string list \<times> bool) list"
  waited :: nat

definition initial_world :: "filesystem \<Rightarrow> world" where
  "initial_world files =
     \<lparr>fs = files, out_handle = None, stdout = [], launched = [], waited = 0\<rparr>"

text \<open>A statement either raises (\<open>Inl\<close>) or returns (\<open>Inr\<close>), and leaves a new world.\<close>

type_synonym 'a io = "world \<Rightarrow> (exn + 'a) \<times> world"

definition bind_io :: "'a io \<Rightarrow> ('a \<Rightarrow> 'b io) \<Rightarrow> 'b io" where
  "bind_io m k w = (case m w of (Inl x, w') \<Rightarrow> (Inl x, w') | (Inr v, w') \<Rightarrow> k v w')"

text \<open>A \<^verbatim>\<open>for\<close> loop over a list: the first exception ends it.\<close>

fun for_each :: "'a list \<Rightarrow> ('a \<Rightarrow> unit io) \<Rightarrow> unit io" where
  "for_each [] body w = (Inr (), w)"
| "for_each (x # xs) body w =
     (case body x w of (Inl ex, w') \<Rightarrow> (Inl ex, w') | (Inr _, w') \<Rightarrow> for_each xs body w')"

text \<open>\<^verbatim>\<open>try: body except cls: handler\<close>, for an exception class without subclasses here.\<close>

definition try_except :: "unit io \<Rightarrow> exn \<Rightarrow> unit io \<Rightarrow> unit io" where
  "try_except body cls handler w =
     (case body w of
        (Inl x, w') \<Rightarrow> if x = cls then handler w' else (Inl x, w')
      | (Inr v, w') \<Rightarrow> (Inr v, w'))"

section \<open>The library and built-in calls\<close>

definition input_path :: string where
  "input_path = ''API_docs/Spec ETF.docx''"

definition output_path :: string where
  "output_path = ''API_docs/Spec_ETF_extracted.txt''"

text \<open>\<^verbatim>\<open>from docx import Document\<close>\<close>

definition import_docx :: "env \<Rightarrow> unit io" where
  "import_docx e w = (if docx_installed e then (Inr (), w) else (Inl ImportError, w))"

text \<open>\<^verbatim>\<open>Document(path)\<close>: a missing path and a file that is no Word container both raise.\<close>

definition Document :: "string \<Rightarrow> document io" where
  "Document path w =
     (case fs w path of
        None \<Rightarrow> (Inl PackageNotFoundError, w)
      | Some (DocxFile d) \<Rightarrow> (Inr d, w)
      | Some (TextFile s) \<Rightarrow> (Inl BadZipFile, w)
      | Some (OtherFile s) \<Rightarrow> (Inl BadZipFile, w))"

text \<open>\<^verbatim>\<open>open(path, 'w', encoding='utf-8')\<close>: creates the file or truncates it, at once.\<close>

definition open_w :: "env \<Rightarrow> string \<Rightarrow> unit io" where
  "open_w e path w =
     (if output_writable e
      then (Inr (), w\<lparr>fs := (fs w)(path \<mapsto> TextFile []),
                       out_handle := Some \<lparr>h_path = path, h_pending = [], h_count = 0,
                                            h_closed = False\<rparr>\<rparr>)
      else (Inl OSError, w))"

definition quota_reached :: "env \<Rightarrow> nat \<Rightarrow> bool" where
  "quota_reached e n = (case write_quota e of None \<Rightarrow> False | Some q \<Rightarrow> q \<le> n)"

text \<open>\<^verbatim>\<open>f.write(s)\<close>\<close>

definition f_write :: "env \<Rightarrow> string \<Rightarrow> unit io" where
  "f_write e s w =
     (case out_handle w of
        None \<Rightarrow> (Inl ValueError, w)
      | Some h \<Rightarrow>
          if h_closed h then (Inl ValueError, w)
          else if quota_reached e (h_count h) then (Inl OSError, w)
          else (Inr (), w\<lparr>out_handle :=
                  Some (h\<lparr>h_pending := h_pending h @ [s], h_count := h_count h + 1\<rparr>)\<rparr>))"

definition text_of :: "fsnode option \<Rightarrow> string" where
  "text_of x = (case x of Some (TextFile s) \<Rightarrow> s | _ \<Rightarrow> [])"

text \<open>What of a text reaches the disk when it is flushed.\<close>

definition stored :: "env \<Rightarrow> string \<Rightarrow> string" where
  "stored e s = (case disk_room e of None \<Rightarrow> s | Some r \<Rightarrow> take r s)"

text \<open>
  \<^verbatim>\<open>f.close()\<close>.  The text file is buffered: the pending chunks go to the disk now.
  When the disk does not take all of them, the rest is lost and \<^verbatim>\<open>close\<close> raises;
  the object is closed all the same.
\<close>

definition close_handle :: "env \<Rightarrow> unit io" where
  "close_handle e w =
     (case out_handle w of
        None \<Rightarrow> (Inr (), w)
      | Some h \<Rightarrow>
          if h_closed h then (Inr (), w)
          else (if length (stored e (concat (h_pending h))) < length (concat (h_pending h))
                then Inl OSError else Inr (),
                w\<lparr>fs := (fs w)(h_path h \<mapsto>
                          TextFile (text_of (fs w (h_path h))
                                    @ stored e (concat (h_pending h)))),
                  out_handle := Some (h\<lparr>h_pending := [], h_closed := True\<rparr>)\<rparr>))"

text \<open>
  \<^verbatim>\<open>with open(path, 'w', encoding='utf-8') as f: body\<close>.  When \<^verbatim>\<open>open\<close> raises there is
  no object to release.  Otherwise the object is closed when the body returns and
  when it raises.  An exception of \<^verbatim>\<open>close\<close> goes on in place of the outcome of the
  body; otherwise an exception of the body goes on.
\<close>

definition with_open :: "env \<Rightarrow> string \<Rightarrow> unit io \<Rightarrow> unit io" where
  "with_open e path body w =
     (case open_w e path w of
        (Inl x, w1) \<Rightarrow> (Inl x, w1)
      | (Inr _, w1) \<Rightarrow>
          (case body w1 of
             (r, w2) \<Rightarrow>
               (case close_handle e w2 of
                  (Inl x, w3) \<Rightarrow> (Inl x, w3)
                | (Inr _, w3) \<Rightarrow> (r, w3))))"

text \<open>
  \<^verbatim>\<open>print(s)\<close>.  Text is held as UTF-8 bytes, so a character outside ASCII shows as
  bytes with the top bit set; printing one to a standard output whose encoding lacks
  it raises.
\<close>

definition ascii_only :: "string \<Rightarrow> bool" where
  "ascii_only s = list_all (\<lambda>c. \<not> digit7 c) s"

definition print :: "env \<Rightarrow> string \<Rightarrow> unit io" where
  "print e s w =
     (if stdout_unicode e \<or> ascii_only s
      then (Inr (), w\<lparr>stdout := stdout w @ [s]\<rparr>)
      else (Inl UnicodeEncodeError, w))"

text \<open>
  \<^verbatim>\<open>subprocess.run(args, shell=True)\<close>, without \<^verbatim>\<open>check\<close> and without \<^verbatim>\<open>timeout\<close>: it
  starts the command, blocks until the command has ended, and returns its exit status
  whatever it is; it does not raise on a non-zero one.
\<close>

definition subprocess_run :: "env \<Rightarrow> string list \<Rightarrow> bool \<Rightarrow> int io" where
  "subprocess_run e args shell w =
     (Inr (shell_status e),
      w\<lparr>launched := launched w @ [(args, shell)], waited := waited w + command_duration e\<rparr>)"

text \<open>\<^verbatim>\<open>sep.join(xs)\<close>\<close>

fun join :: "string \<Rightarrow> string list \<Rightarrow> string" where
  "join sep [] = []"
| "join sep [x] = x"
| "join sep (x # y # ys) = x @ sep @ join sep (y # ys)"

section \<open>The script\<close>

definition line_feed :: char where
  "line_feed = CHR 0x0A"

definition tab :: char where
  "tab = CHR 0x09"

definition success_message :: string where
  "success_message =
     [CHR 0xE2, CHR 0x9C, CHR 0x93] @ '' Extracted ETF spec to Spec_ETF_extracted.txt''"

definition missing_message :: string where
  "missing_message =
     [CHR 0xE2, CHR 0x9D, CHR 0x8C]
       @ '' python-docx not installed. Install with: pip install python-docx''"

definition manual_message :: string where
  "manual_message = line_feed # ''Alternatively, opening the Word document manually...''"

text \<open>The two loops inside the \<^verbatim>\<open>with\<close> block.\<close>

definition write_paragraphs :: "env \<Rightarrow> document \<Rightarrow> unit io" where
  "write_paragraphs e doc =
     for_each (paragraphs doc) (\<lambda>para. f_write e (para_text para @ [line_feed]))"

text \<open>\<^verbatim>\<open>'\\t'.join([cell.text for cell in row.cells])\<close>\<close>

definition row_text :: "row \<Rightarrow> string" where
  "row_text row = join [tab] (map cell_text (cells row))"

definition write_tables :: "env \<Rightarrow> document \<Rightarrow> unit io" where
  "write_tables e doc =
     for_each (tables doc) (\<lambda>table.
       for_each (rows table) (\<lambda>row. f_write e (row_text row @ [line_feed])))"

text \<open>The body of the \<^verbatim>\<open>try\<close>.\<close>

definition extract_text :: "env \<Rightarrow> unit io" where
  "extract_text e =
     bind_io (import_docx e) (\<lambda>_.
     bind_io (Document input_path) (\<lambda>doc.
     bind_io (with_open e output_path
                (bind_io (write_paragraphs e doc) (\<lambda>_. write_tables e doc))) (\<lambda>_.
     print e success_message)))"

text \<open>The \<^verbatim>\<open>except ImportError\<close> handler.\<close>

definition fallback :: "env \<Rightarrow> unit io" where
  "fallback e =
     bind_io (print e missing_message) (\<lambda>_.
     bind_io (print e manual_message) (\<lambda>_.
     bind_io (subprocess_run e [''start'', input_path] True) (\<lambda>_. (\<lambda>w. (Inr (), w)))))"

definition main :: "env \<Rightarrow> unit io" where
  "main e = try_except (extract_text e) ImportError (fallback e)"

text \<open>One run of the script as a fresh process on a given file system.\<close>

definition run :: "env \<Rightarrow> filesystem \<Rightarrow> (exn + unit) \<times> world" where
  "run e files = main e (initial_world files)"

section \<open>What the script writes, in closed form\<close>

text \<open>
  The chunks handed to \<^verbatim>\<open>f.write\<close>, in the order of the calls: one per paragraph, then
  one per row of each table.
\<close>

definition para_line :: "para \<Rightarrow> string" where
  "para_line p = para_text p @ [line_feed]"

definition row_line :: "row \<Rightarrow> string" where
  "row_line r = row_text r @ [line_feed]"

definition records :: "document \<Rightarrow> string list" where
  "records d =
     map para_line (paragraphs d) @ concat (map (\<lambda>t. map row_line (rows t)) (tables d))"

text \<open>
  How many of the writes \<open>ss\<close> return when \<open>n\<close> writes went through before.
\<close>

definition accepted :: "env \<Rightarrow> nat \<Rightarrow> string list \<Rightarrow> nat" where
  "accepted e n ss =
     (case write_quota e of None \<Rightarrow> length ss | Some q \<Rightarrow> min (q - n) (length ss))"

text \<open>The text that the accepted writes of a run carry.\<close>

definition accepted_text :: "env \<Rightarrow> document \<Rightarrow> string" where
  "accepted_text e d = concat (take (accepted e 0 (records d)) (records d))"


text \<open>The state of the file object after \<^verbatim>\<open>close\<close>, \<open>k\<close> writes having been accepted.\<close>

definition closed_handle :: "nat \<Rightarrow> handle" where
  "closed_handle k = \<lparr>h_path = output_path, h_pending = [], h_count = k, h_closed = True\<rparr>"





text \<open>
  The output as the specification words it: the paragraphs first, in document order,
  one line each; then the tables in document order, their rows top to bottom, one line
  each, the cells of a row left to right with a tab between neighbours.
\<close>

definition tab_separated :: "string list \<Rightarrow> string" where
  "tab_separated xs =
     (if xs = [] then [] else concat (map (\<lambda>x. x @ [tab]) (butlast xs)) @ last xs)"

definition expected_output :: "document \<Rightarrow> string" where
  "expected_output d =
     concat (map (\<lambda>p. para_text p @ [line_feed]) (paragraphs d))
     @ concat (map (\<lambda>t. concat (map (\<lambda>r. tab_separated (map cell_text (cells r)) @ [line_feed])
                                    (rows t)))
                (tables d))"




section \<open>Sample hosts and documents\<close>

definition healthy_env :: env where
  "healthy_env =
     \<lparr>docx_installed = True, output_writable = True, write_quota = None, disk_room = None,
      stdout_unicode = True, shell_status = 0, command_duration = 0\<rparr>"

definition bare_env :: env where
  "bare_env = healthy_env\<lparr>docx_installed := False, shell_status := 1\<rparr>"

definition full_disk_env :: env where
  "full_disk_env = healthy_env\<lparr>write_quota := Some 3\<rparr>"


text \<open>Hosts whose standard output is encoded in cp1252, with and without the library.\<close>

definition cp1252_env :: env where
  "cp1252_env = healthy_env\<lparr>stdout_unicode := False\<rparr>"



definition sample_document :: document where
  "sample_document =
     \<lparr>paragraphs = [Paragraph ''Fund'', Paragraph ''Fees''],
      tables = [Table [Row [Cell ''Name'', Cell ''Rate''], Row [Cell ''ETF'', Cell ''0.2'']]]\<rparr>"

definition empty_document :: document where
  "empty_document = \<lparr>paragraphs = [], tables = []\<rparr>"




text \<open>A file system holding a document at the input path and a stale output file.\<close>

definition disk_with :: "document \<Rightarrow> filesystem" where
  "disk_with d = [input_path \<mapsto> DocxFile d, output_path \<mapsto> TextFile ''stale'']"

section \<open>The loops\<close>

lemma for_each_map: "for_each xs (\<lambda>x. body (g x)) w = for_each (map g xs) body w"
  by (induction xs arbitrary: w) (auto split: prod.splits sum.splits)

lemma for_each_map_fn: "for_each (map g xs) body = for_each xs (\<lambda>x. body (g x))"
  by (rule ext) (simp add: for_each_map)

lemma for_each_append:
  "for_each (xs @ ys) body w =
     (case for_each xs body w of
        (Inl x, w') \<Rightarrow> (Inl x, w')
      | (Inr _, w') \<Rightarrow> for_each ys body w')"
  by (induction xs arbitrary: w) (auto split: prod.splits sum.splits)

lemma for_each_concat:
  "for_each xss (\<lambda>xs. for_each xs body) w = for_each (concat xss) body w"
  by (induction xss arbitrary: w) (auto simp: for_each_append split: prod.splits sum.splits)

lemma write_paragraphs_records:
  "write_paragraphs e d = for_each (map para_line (paragraphs d)) (f_write e)"
  unfolding write_paragraphs_def para_line_def
  by (rule ext) (rule for_each_map)

lemma write_tables_records:
  "write_tables e d =
     for_each (concat (map (\<lambda>t. map row_line (rows t)) (tables d))) (f_write e)"
proof (rule ext)
  fix w
  let ?rs = "\<lambda>t. map row_line (rows t)"
  have "write_tables e d w = for_each (tables d) (\<lambda>t. for_each (?rs t) (f_write e)) w"
    unfolding write_tables_def row_line_def by (simp add: for_each_map_fn)
  also have "\<dots> = for_each (map ?rs (tables d)) (\<lambda>xs. for_each xs (f_write e)) w"
    by (rule for_each_map [where body = "\<lambda>xs. for_each xs (f_write e)"])
  also have "\<dots> = for_each (concat (map ?rs (tables d))) (f_write e) w"
    by (rule for_each_concat)
  finally show "write_tables e d w = for_each (concat (map ?rs (tables d))) (f_write e) w" .
qed

lemma write_body_records:
  "bind_io (write_paragraphs e d) (\<lambda>_. write_tables e d) = for_each (records d) (f_write e)"
  unfolding records_def write_paragraphs_records write_tables_records
  by (rule ext) (auto simp: bind_io_def for_each_append split: prod.splits sum.splits)

text \<open>
  Writing a list of chunks to an open file object: the accepted ones are appended to
  the pending chunks, and the first refused one raises.
\<close>

lemma write_all:
  assumes "out_handle w = Some h" and "\<not> h_closed h"
  shows "for_each ss (f_write e) w =
           (if accepted e (h_count h) ss < length ss then Inl OSError else Inr (),
            w\<lparr>out_handle :=
                Some (h\<lparr>h_pending := h_pending h @ take (accepted e (h_count h) ss) ss,
                        h_count := h_count h + accepted e (h_count h) ss\<rparr>)\<rparr>)"
  using assms
proof (induction ss arbitrary: w h)
  case Nil
  then show ?case by (simp add: accepted_def split: option.splits)
next
  case (Cons s ss)
  show ?case
  proof (cases "quota_reached e (h_count h)")
    case True
    then have "accepted e (h_count h) (s # ss) = 0"
      by (auto simp: accepted_def quota_reached_def split: option.splits)
    with True Cons.prems show ?thesis by (simp add: f_write_def)
  next
    case False
    let ?h = "h\<lparr>h_pending := h_pending h @ [s], h_count := h_count h + 1\<rparr>"
    let ?w = "w\<lparr>out_handle := Some ?h\<rparr>"
    have first: "f_write e s w = (Inr (), ?w)"
      using False Cons.prems by (simp add: f_write_def)
    have acc: "accepted e (h_count h) (s # ss) = Suc (accepted e (Suc (h_count h)) ss)"
      using False by (auto simp: accepted_def quota_reached_def split: option.splits)
    have "for_each ss (f_write e) ?w =
           (if accepted e (h_count ?h) ss < length ss then Inl OSError else Inr (),
            ?w\<lparr>out_handle :=
                 Some (?h\<lparr>h_pending := h_pending ?h @ take (accepted e (h_count ?h) ss) ss,
                          h_count := h_count ?h + accepted e (h_count ?h) ss\<rparr>)\<rparr>)"
      by (rule Cons.IH) (use Cons.prems in simp_all)
    then show ?thesis using first acc by simp
  qed
qed

section \<open>One run, case by case\<close>

lemma paths_differ: "input_path \<noteq> output_path"
  by (simp add: input_path_def output_path_def)

lemma accepted_le: "accepted e n ss \<le> length ss"
  by (simp add: accepted_def split: option.splits)


lemma stored_length: "length (stored e s) \<le> length s"
  by (simp add: stored_def split: option.splits)

lemma stored_short: "\<not> length (stored e s) < length s \<Longrightarrow> stored e s = s"
  by (simp add: stored_def split: option.splits)

lemma success_message_not_ascii: "\<not> ascii_only success_message"
  by (simp add: ascii_only_def success_message_def)

lemma missing_message_not_ascii: "\<not> ascii_only missing_message"
  by (simp add: ascii_only_def missing_message_def)

lemma manual_message_ascii: "ascii_only manual_message"
  by (simp add: ascii_only_def manual_message_def line_feed_def)

lemma with_open_writes:
  assumes "output_writable e"
  shows "with_open e output_path (for_each ss (f_write e)) w =
           (if accepted e 0 ss < length ss
               \<or> length (stored e (concat (take (accepted e 0 ss) ss)))
                   < length (concat (take (accepted e 0 ss) ss))
            then Inl OSError else Inr (),
            w\<lparr>fs := (fs w)(output_path \<mapsto>
                        TextFile (stored e (concat (take (accepted e 0 ss) ss)))),
               out_handle := Some (closed_handle (accepted e 0 ss))\<rparr>)"
proof -
  let ?h = "\<lparr>h_path = output_path, h_pending = [], h_count = 0, h_closed = False\<rparr>"
  let ?w = "w\<lparr>fs := (fs w)(output_path \<mapsto> TextFile []), out_handle := Some ?h\<rparr>"
  have o: "open_w e output_path w = (Inr (), ?w)"
    using assms by (simp add: open_w_def)
  note b = write_all [of ?w ?h ss e, simplified]
  show ?thesis
  proof (cases "accepted e 0 ss < length ss")
    case True
    then show ?thesis
      by (simp add: with_open_def o b close_handle_def text_of_def closed_handle_def)
  next
    case False
    with accepted_le [of e 0 ss] have k: "accepted e 0 ss = length ss" by simp
    show ?thesis
      by (simp add: with_open_def o b k close_handle_def text_of_def closed_handle_def)
  qed
qed

lemma with_open_refused:
  "\<not> output_writable e \<Longrightarrow> with_open e path body w = (Inl OSError, w)"
  by (simp add: with_open_def open_w_def)

lemma run_no_docx:
  assumes "\<not> docx_installed e" and "stdout_unicode e"
  shows "run e files =
           (Inr (), \<lparr>fs = files, out_handle = None,
                     stdout = [missing_message, manual_message],
                     launched = [([''start'', input_path], True)],
                     waited = command_duration e\<rparr>)"
  using assms
  by (simp add: run_def main_def try_except_def extract_text_def fallback_def bind_io_def
      import_docx_def print_def subprocess_run_def initial_world_def)

lemma run_no_docx_no_unicode:
  assumes "\<not> docx_installed e" and "\<not> stdout_unicode e"
  shows "run e files = (Inl UnicodeEncodeError, initial_world files)"
  using assms
  by (simp add: run_def main_def try_except_def extract_text_def fallback_def bind_io_def
      import_docx_def print_def initial_world_def missing_message_not_ascii)

lemma run_missing:
  assumes "docx_installed e" and "files input_path = None"
  shows "run e files = (Inl PackageNotFoundError, initial_world files)"
  using assms
  by (simp add: run_def main_def try_except_def extract_text_def bind_io_def
      import_docx_def Document_def initial_world_def)

lemma run_corrupt:
  assumes "docx_installed e"
    and "files input_path = Some (TextFile s) \<or> files input_path = Some (OtherFile s)"
  shows "run e files = (Inl BadZipFile, initial_world files)"
  using assms
  by (auto simp: run_def main_def try_except_def extract_text_def bind_io_def
      import_docx_def Document_def initial_world_def)

lemma run_unwritable:
  assumes "docx_installed e" and "files input_path = Some (DocxFile d)"
    and "\<not> output_writable e"
  shows "run e files = (Inl OSError, initial_world files)"
  using assms
  by (simp add: run_def main_def try_except_def extract_text_def bind_io_def
      import_docx_def Document_def initial_world_def with_open_refused)

text \<open>
  The run that reaches \<^verbatim>\<open>open\<close>: a refused write or a short flush raises \<^verbatim>\<open>OSError\<close>;
  otherwise the whole text is in the file, and the last thing to go wrong is the
  \<^verbatim>\<open>print\<close> of the success message.
\<close>

lemma run_writable:
  assumes "docx_installed e" and "files input_path = Some (DocxFile d)"
    and "output_writable e"
  shows "run e files =
           (if accepted e 0 (records d) < length (records d)
               \<or> length (stored e (accepted_text e d)) < length (accepted_text e d)
            then (Inl OSError,
                  \<lparr>fs = files(output_path \<mapsto> TextFile (stored e (accepted_text e d))),
                   out_handle = Some (closed_handle (accepted e 0 (records d))),
                   stdout = [], launched = [], waited = 0\<rparr>)
            else if stdout_unicode e
            then (Inr (),
                  \<lparr>fs = files(output_path \<mapsto> TextFile (concat (records d))),
                   out_handle = Some (closed_handle (length (records d))),
                   stdout = [success_message], launched = [], waited = 0\<rparr>)
            else (Inl UnicodeEncodeError,
                  \<lparr>fs = files(output_path \<mapsto> TextFile (concat (records d))),
                   out_handle = Some (closed_handle (length (records d))),
                   stdout = [], launched = [], waited = 0\<rparr>))"
proof -
  let ?k = "accepted e 0 (records d)"
  let ?w = "initial_world files"
  have body: "with_open e output_path
                (bind_io (write_paragraphs e d) (\<lambda>_. write_tables e d)) ?w =
           (if ?k < length (records d)
               \<or> length (stored e (accepted_text e d)) < length (accepted_text e d)
            then Inl OSError else Inr (),
            ?w\<lparr>fs := (fs ?w)(output_path \<mapsto> TextFile (stored e (accepted_text e d))),
               out_handle := Some (closed_handle ?k)\<rparr>)"
    unfolding write_body_records accepted_text_def
    by (rule with_open_writes [OF assms(3)])
  have doc: "Document input_path ?w = (Inr d, ?w)"
    using assms(2) by (simp add: Document_def initial_world_def)
  have imp: "import_docx e ?w = (Inr (), ?w)"
    using assms(1) by (simp add: import_docx_def)
  have full: "\<not> ?k < length (records d) \<Longrightarrow> accepted_text e d = concat (records d)"
    using accepted_le [of e 0 "records d"] by (simp add: accepted_text_def)
  have k: "\<not> ?k < length (records d) \<Longrightarrow> ?k = length (records d)"
    using accepted_le [of e 0 "records d"] by simp
  have ext: "extract_text e ?w =
      (case with_open e output_path
                (bind_io (write_paragraphs e d) (\<lambda>_. write_tables e d)) ?w of
         (Inl x, w') \<Rightarrow> (Inl x, w')
       | (Inr _, w') \<Rightarrow> print e success_message w')"
    by (simp add: extract_text_def bind_io_def imp doc)
  show ?thesis
  proof (cases "?k < length (records d)
               \<or> length (stored e (accepted_text e d)) < length (accepted_text e d)")
    case True
    then show ?thesis
      unfolding run_def main_def try_except_def ext body
      by (simp add: initial_world_def)
  next
    case False
    then have a: "\<not> ?k < length (records d)"
      and b: "\<not> length (stored e (accepted_text e d)) < length (accepted_text e d)"
      by simp_all
    have s: "stored e (accepted_text e d) = concat (records d)"
      using stored_short [OF b] full [OF a] by simp
    show ?thesis
      using False success_message_not_ascii
      unfolding run_def main_def try_except_def ext body
      by (simp add: initial_world_def print_def s k [OF a])
  qed
qed

lemma run_completes:
  assumes "docx_installed e" and "files input_path = Some (DocxFile d)"
    and "fst (run e files) = Inr ()"
  shows "run e files =
           (Inr (), \<lparr>fs = files(output_path \<mapsto> TextFile (concat (records d))),
                     out_handle = Some (closed_handle (length (records d))),
                     stdout = [success_message], launched = [], waited = 0\<rparr>)"
proof (cases "output_writable e")
  case False
  with assms show ?thesis by (simp add: run_unwritable)
next
  case True
  with assms show ?thesis by (simp add: run_writable split: if_splits)
qed

lemma run_fs:
  "fs (snd (run e files)) =
     (if docx_installed e \<and> output_writable e
      then (case files input_path of
              Some (DocxFile d) \<Rightarrow>
                files(output_path \<mapsto> TextFile (stored e (accepted_text e d)))
            | _ \<Rightarrow> files)
      else files)"
proof (cases "docx_installed e")
  case False
  then show ?thesis
    by (cases "stdout_unicode e")
       (simp_all add: run_no_docx run_no_docx_no_unicode initial_world_def)
next
  case inst: True
  show ?thesis
  proof (cases "files input_path")
    case None
    with inst show ?thesis by (simp add: run_missing initial_world_def)
  next
    case (Some node)
    show ?thesis
    proof (cases node)
      case (TextFile s)
      with inst Some show ?thesis by (simp add: run_corrupt initial_world_def)
    next
      case (OtherFile s)
      with inst Some show ?thesis by (simp add: run_corrupt initial_world_def)
    next
      case (DocxFile d)
      show ?thesis
      proof (cases "output_writable e")
        case False
        with inst Some DocxFile show ?thesis by (simp add: run_unwritable initial_world_def)
      next
        case True
        have full: "\<not> accepted e 0 (records d) < length (records d) \<Longrightarrow>
                     \<not> length (stored e (accepted_text e d)) < length (accepted_text e d) \<Longrightarrow>
                     stored e (accepted_text e d) = concat (records d)"
          using accepted_le [of e 0 "records d"] stored_short [of e "accepted_text e d"]
          by (simp add: accepted_text_def)
        from True inst Some DocxFile show ?thesis
          by (auto simp: run_writable full)
      qed
    qed
  qed
qed

lemma healthy_accepts: "accepted healthy_env n ss = length ss"
  by (simp add: accepted_def healthy_env_def)

lemma run_healthy:
  "run healthy_env (disk_with d) =
     (Inr (), \<lparr>fs = (disk_with d)(output_path \<mapsto> TextFile (concat (records d))),
               out_handle = Some (closed_handle (length (records d))),
               stdout = [success_message], launched = [], waited = 0\<rparr>)"
proof -
  have "accepted_text healthy_env d = concat (records d)"
    by (simp add: accepted_text_def healthy_accepts)
  moreover have "stored healthy_env s = s" for s
    by (simp add: stored_def healthy_env_def)
  ultimately show ?thesis
    using run_writable [of healthy_env "disk_with d" d]
    by (simp add: healthy_accepts) (simp add: healthy_env_def disk_with_def paths_differ)
qed

section \<open>Counting line feeds and tabs\<close>









lemma join_tab_separated: "join [tab] xs = tab_separated xs"
  by (induction "[tab]" xs rule: join.induct) (simp_all add: tab_separated_def)






lemma concat_records: "concat (records d) = expected_output d"
proof -
  have "concat (concat (map (\<lambda>t. map row_line (rows t)) ts)) =
        concat (map (\<lambda>t. concat (map (\<lambda>r. tab_separated (map cell_text (cells r)) @ [line_feed])
                                    (rows t))) ts)" for ts
    by (induction ts) (simp_all add: row_line_def row_text_def join_tab_separated)
  then show ?thesis
    by (simp add: records_def expected_output_def para_line_def [abs_def])
qed

section \<open>The lines of the output\<close>






lemma bare_env_no_docx: "\<not> docx_installed bare_env"
  by (simp add: bare_env_def healthy_env_def)

lemma healthy_env_docx: "docx_installed healthy_env"
  by (simp add: healthy_env_def)

lemma disk_with_input: "disk_with d input_path = Some (DocxFile d)"
  by (simp add: disk_with_def paths_differ)

lemma bare_env_unicode: "stdout_unicode bare_env"
  by (simp add: bare_env_def healthy_env_def)

section \<open>The missing library\<close>




section \<open>Every other fault\<close>

text \<open>
  Claim C4.  With the library there, no other fault is caught: every exception of the
  \<^verbatim>\<open>try\<close> body that is not \<^verbatim>\<open>ImportError\<close> leaves the script as it is.  A missing
  input file raises before the output file is opened, and the world is untouched, so
  no output file is created; so does a file that is no Word container, and an output
  path that cannot be opened; a write that the disk refuses raises as well, with
  nothing printed and nothing launched.
\<close>

theorem other_faults_propagate:
  assumes "docx_installed e"
  shows "(\<forall>x w w'. extract_text e w = (Inl x, w') \<and> x \<noteq> ImportError
            \<longrightarrow> main e w = (Inl x, w'))
       \<and> (files input_path = None
            \<longrightarrow> run e files = (Inl PackageNotFoundError, initial_world files))
       \<and> (\<forall>s. files input_path = Some (TextFile s) \<or> files input_path = Some (OtherFile s)
            \<longrightarrow> run e files = (Inl BadZipFile, initial_world files))
       \<and> (\<forall>d. files input_path = Some (DocxFile d) \<and> \<not> output_writable e
            \<longrightarrow> run e files = (Inl OSError, initial_world files))
       \<and> (\<forall>d. files input_path = Some (DocxFile d) \<and> output_writable e
                \<and> accepted e 0 (records d) < length (records d)
            \<longrightarrow> fst (run e files) = Inl OSError
                \<and> stdout (snd (run e files)) = [] \<and> launched (snd (run e files)) = [])"
proof (intro conjI allI impI)
  fix x w w'
  assume "extract_text e w = (Inl x, w') \<and> x \<noteq> ImportError"
  then show "main e w = (Inl x, w')" by (simp add: main_def try_except_def)
next
  assume "files input_path = None"
  with assms show "run e files = (Inl PackageNotFoundError, initial_world files)"
    by (rule run_missing)
next
  fix s
  assume "files input_path = Some (TextFile s) \<or> files input_path = Some (OtherFile s)"
  with assms show "run e files = (Inl BadZipFile, initial_world files)"
    by (rule run_corrupt)
next
  fix d
  assume "files input_path = Some (DocxFile d) \<and> \<not> output_writable e"
  with assms show "run e files = (Inl OSError, initial_world files)"
    by (simp add: run_unwritable)
next
  fix d
  assume h: "files input_path = Some (DocxFile d) \<and> output_writable e
                \<and> accepted e 0 (records d) < length (records d)"
  with assms show "fst (run e files) = Inl OSError" by (simp add: run_writable)
  from assms h show "stdout (snd (run e files)) = []" by (simp add: run_writable)
  from assms h show "launched (snd (run e files)) = []" by (simp add: run_writable)
qed

lemma full_disk_accepted: "accepted full_disk_env 0 (records sample_document) = 3"
  by (simp add: accepted_def full_disk_env_def healthy_env_def records_def sample_document_def)

lemma sample_records_length: "length (records sample_document) = 4"
  by (simp add: records_def sample_document_def)

text \<open>A disk that accepts three writes: no input, a junk input, and the sample document.\<close>

theorem other_faults_propagate_witness:
  "docx_installed full_disk_env
   \<and> run full_disk_env Map.empty = (Inl PackageNotFoundError, initial_world Map.empty)
   \<and> fs (snd (run full_disk_env Map.empty)) output_path = None
   \<and> run full_disk_env [input_path \<mapsto> OtherFile ''junk'']
       = (Inl BadZipFile, initial_world [input_path \<mapsto> OtherFile ''junk''])
   \<and> fst (run full_disk_env (disk_with sample_document)) = Inl OSError
   \<and> launched (snd (run full_disk_env (disk_with sample_document))) = []"
proof -
  have a: "docx_installed full_disk_env"
    by (simp add: full_disk_env_def healthy_env_def)
  have w: "output_writable full_disk_env"
    by (simp add: full_disk_env_def healthy_env_def)
  note t = other_faults_propagate [OF a]
  have "run full_disk_env Map.empty = (Inl PackageNotFoundError, initial_world Map.empty)"
    using t [of Map.empty] by simp
  moreover have "run full_disk_env [input_path \<mapsto> OtherFile ''junk'']
       = (Inl BadZipFile, initial_world [input_path \<mapsto> OtherFile ''junk''])"
    using t [of "[input_path \<mapsto> OtherFile ''junk'']"] by simp
  moreover have "fst (run full_disk_env (disk_with sample_document)) = Inl OSError
       \<and> launched (snd (run full_disk_env (disk_with sample_document))) = []"
    using t [of "disk_with sample_document"] w
    by (simp add: disk_with_input full_disk_accepted sample_records_length)
  ultimately show ?thesis using a by (simp add: initial_world_def)
qed









section \<open>Tabs in a row\<close>




lemma run_keeps_input: "fs (snd (run e files)) input_path = files input_path"
  using paths_differ
  by (auto simp: run_fs split: option.splits fsnode.splits)

section \<open>Running twice\<close>

text \<open>
  Claim C6.  A second run on the file system the first run left gives the same file
  system again, the output file with it: on the same host whatever happens there, and
  on any two hosts with the library on which both runs reach their end.  The output is
  written anew and not appended to.
\<close>

theorem rerun_same_output:
  "fs (snd (run e (fs (snd (run e files))))) = fs (snd (run e files))
   \<and> (docx_installed e \<and> docx_installed e'
        \<and> fst (run e files) = Inr () \<and> fst (run e' (fs (snd (run e files)))) = Inr ()
      \<longrightarrow> fs (snd (run e' (fs (snd (run e files))))) = fs (snd (run e files)))"
proof (intro conjI impI)
  show "fs (snd (run e (fs (snd (run e files))))) = fs (snd (run e files))"
    unfolding run_fs [of e "fs (snd (run e files))"] run_keeps_input
    by (simp add: run_fs split: option.splits fsnode.splits)
next
  assume h: "docx_installed e \<and> docx_installed e'
        \<and> fst (run e files) = Inr () \<and> fst (run e' (fs (snd (run e files)))) = Inr ()"
  let ?files' = "fs (snd (run e files))"
  from h have inst: "docx_installed e" and inst': "docx_installed e'"
    and c: "fst (run e files) = Inr ()" and c': "fst (run e' ?files') = Inr ()"
    by simp_all
  show "fs (snd (run e' ?files')) = ?files'"
  proof (cases "files input_path")
    case None
    with inst c show ?thesis by (simp add: run_missing)
  next
    case (Some node)
    show ?thesis
    proof (cases node)
      case (TextFile s)
      with inst c Some show ?thesis by (simp add: run_corrupt)
    next
      case (OtherFile s)
      with inst c Some show ?thesis by (simp add: run_corrupt)
    next
      case (DocxFile d)
      with Some have i: "files input_path = Some (DocxFile d)" by simp
      then have i': "?files' input_path = Some (DocxFile d)" by (simp add: run_keeps_input)
      have one: "?files' = files(output_path \<mapsto> TextFile (concat (records d)))"
        using run_completes [OF inst i c] by simp
      have two: "fs (snd (run e' ?files')) = ?files'(output_path \<mapsto> TextFile (concat (records d)))"
        using run_completes [OF inst' i' c'] by simp
      show ?thesis unfolding two unfolding one by simp
    qed
  qed
qed

text \<open>The sample document, extracted twice over a stale output file.\<close>

theorem rerun_same_output_witness:
  "docx_installed healthy_env \<and> docx_installed (healthy_env\<lparr>shell_status := 7\<rparr>)
   \<and> fst (run healthy_env (disk_with sample_document)) = Inr ()
   \<and> fs (snd (run (healthy_env\<lparr>shell_status := 7\<rparr>)
                 (fs (snd (run healthy_env (disk_with sample_document))))))
       = fs (snd (run healthy_env (disk_with sample_document)))
   \<and> fs (snd (run healthy_env (disk_with sample_document))) output_path
       = Some (TextFile (expected_output sample_document))"
proof -
  let ?e' = "healthy_env\<lparr>shell_status := 7\<rparr>"
  let ?files' = "fs (snd (run healthy_env (disk_with sample_document)))"
  have a: "docx_installed healthy_env" by (rule healthy_env_docx)
  have a': "docx_installed ?e'" by (simp add: healthy_env_def)
  have c: "fst (run healthy_env (disk_with sample_document)) = Inr ()"
    by (simp add: run_healthy)
  have i': "?files' input_path = Some (DocxFile sample_document)"
    by (simp add: run_keeps_input disk_with_input)
  have w': "output_writable ?e'" by (simp add: healthy_env_def)
  have q': "accepted ?e' 0 ss = length ss" for ss by (simp add: accepted_def healthy_env_def)
  have s': "stored ?e' x = x" for x by (simp add: stored_def healthy_env_def)
  have u': "stdout_unicode ?e'" by (simp add: healthy_env_def)
  have c': "fst (run ?e' ?files') = Inr ()"
    using run_writable [of ?e' ?files' sample_document] a' i' w' u'
    by (simp add: q' s')
  have o: "?files' output_path = Some (TextFile (expected_output sample_document))"
    by (simp add: run_healthy concat_records)
  show ?thesis
    using a a' c c' o rerun_same_output [of healthy_env "disk_with sample_document" ?e']
    by blast
qed

section \<open>The file object\<close>















section \<open>The launched command\<close>




section \<open>Two paths\<close>

text \<open>
  Claim C9.  A run in which the import fails leaves the file system as it was and
  opens no file object; a run in which the import succeeds launches no command.
\<close>

theorem paths_exclusive:
  "(\<not> docx_installed e \<longrightarrow>
      fs (snd (run e files)) = files \<and> out_handle (snd (run e files)) = None)
   \<and> (docx_installed e \<longrightarrow> launched (snd (run e files)) = [])"
proof (intro conjI impI)
  assume "\<not> docx_installed e"
  then show "fs (snd (run e files)) = files" and "out_handle (snd (run e files)) = None"
    by (cases "stdout_unicode e";
        simp add: run_no_docx run_no_docx_no_unicode initial_world_def)+
next
  assume inst: "docx_installed e"
  show "launched (snd (run e files)) = []"
  proof (cases "files input_path")
    case None
    with inst show ?thesis by (simp add: run_missing initial_world_def)
  next
    case (Some node)
    show ?thesis
    proof (cases node)
      case (TextFile s)
      with inst Some show ?thesis by (simp add: run_corrupt initial_world_def)
    next
      case (OtherFile s)
      with inst Some show ?thesis by (simp add: run_corrupt initial_world_def)
    next
      case (DocxFile d)
      show ?thesis
      proof (cases "output_writable e")
        case False
        with inst Some DocxFile show ?thesis by (simp add: run_unwritable initial_world_def)
      next
        case True
        with inst Some DocxFile show ?thesis by (simp add: run_writable)
      qed
    qed
  qed
qed

text \<open>One run of each kind on the same file system.\<close>

theorem paths_exclusive_witness:
  "\<not> docx_installed bare_env
   \<and> fs (snd (run bare_env (disk_with sample_document))) = disk_with sample_document
   \<and> out_handle (snd (run bare_env (disk_with sample_document))) = None
   \<and> launched (snd (run bare_env (disk_with sample_document)))
       = [([''start'', input_path], True)]
   \<and> docx_installed healthy_env
   \<and> launched (snd (run healthy_env (disk_with sample_document))) = []
   \<and> out_handle (snd (run healthy_env (disk_with sample_document))) \<noteq> None"
proof -
  have "fs (snd (run bare_env (disk_with sample_document))) = disk_with sample_document
        \<and> out_handle (snd (run bare_env (disk_with sample_document))) = None"
    using paths_exclusive [of bare_env "disk_with sample_document"] bare_env_no_docx by blast
  moreover have "launched (snd (run healthy_env (disk_with sample_document))) = []"
    using paths_exclusive [of healthy_env "disk_with sample_document"] healthy_env_docx
    by blast
  ultimately show ?thesis
    using bare_env_no_docx healthy_env_docx bare_env_unicode
    by (simp add: run_no_docx run_healthy)
qed

section \<open>The empty document\<close>

text \<open>
  Claim C10, as amended.  With the library there, the input a Word document and the
  output path writable: a document without paragraphs and tables gives an empty
  output file; the success message is printed when standard output can encode it, and
  otherwise the \<^verbatim>\<open>print\<close> raises \<^verbatim>\<open>UnicodeEncodeError\<close> after the file was written
  and nothing is printed.  For every document the output file after the run, and the
  whole file system, is the same whatever was at the output path before.
\<close>

theorem empty_document_overwrites:
  assumes "docx_installed e" and "output_writable e"
    and "files input_path = Some (DocxFile d)"
  shows "(paragraphs d = [] \<and> tables d = [] \<longrightarrow>
            fs (snd (run e files)) output_path = Some (TextFile [])
            \<and> (stdout_unicode e \<longrightarrow>
                 fst (run e files) = Inr ()
                 \<and> stdout (snd (run e files)) = [success_message])
            \<and> (\<not> stdout_unicode e \<longrightarrow>
                 fst (run e files) = Inl UnicodeEncodeError
                 \<and> stdout (snd (run e files)) = []))
       \<and> fs (snd (run e (files(output_path := old)))) output_path
           = Some (TextFile (stored e (accepted_text e d)))
       \<and> fs (snd (run e (files(output_path := old)))) = fs (snd (run e files))"
proof -
  have i: "(files(output_path := old)) input_path = Some (DocxFile d)"
    using assms(3) paths_differ by simp
  have fs1: "fs (snd (run e files))
               = files(output_path \<mapsto> TextFile (stored e (accepted_text e d)))"
    using assms by (simp add: run_fs)
  have fs2: "fs (snd (run e (files(output_path := old))))
               = (files(output_path := old))
                   (output_path \<mapsto> TextFile (stored e (accepted_text e d)))"
    using assms(1,2) i by (simp add: run_fs)
  have empty: "paragraphs d = [] \<and> tables d = [] \<Longrightarrow> records d = []"
    by (simp add: records_def)
  have st: "stored e [] = []"
    by (simp add: stored_def split: option.splits)
  have none: "records d = [] \<Longrightarrow> accepted e 0 (records d) = 0 \<and> accepted_text e d = []
                \<and> stored e (accepted_text e d) = []"
    by (simp add: accepted_text_def accepted_def st split: option.splits)
  show ?thesis
  proof (intro conjI impI)
    assume z: "paragraphs d = [] \<and> tables d = []"
    note n = none [OF empty [OF z]]
    show "fs (snd (run e files)) output_path = Some (TextFile [])"
      by (simp add: fs1 n st)
    {
      assume u: "stdout_unicode e"
      show "fst (run e files) = Inr ()" and "stdout (snd (run e files)) = [success_message]"
        using u n empty [OF z] assms by (simp_all add: run_writable [of e files d] st)
    }
    {
      assume u: "\<not> stdout_unicode e"
      show "fst (run e files) = Inl UnicodeEncodeError" and "stdout (snd (run e files)) = []"
        using u n empty [OF z] assms by (simp_all add: run_writable [of e files d] st)
    }
  next
    show "fs (snd (run e (files(output_path := old)))) output_path
           = Some (TextFile (stored e (accepted_text e d)))"
      by (simp add: fs2)
    show "fs (snd (run e (files(output_path := old)))) = fs (snd (run e files))"
      by (simp add: fs1 fs2)
  qed
qed

text \<open>The empty document over a stale output file, standard output in UTF-8.\<close>

theorem empty_document_overwrites_witness:
  "docx_installed healthy_env \<and> output_writable healthy_env \<and> stdout_unicode healthy_env
   \<and> disk_with empty_document input_path = Some (DocxFile empty_document)
   \<and> disk_with empty_document output_path = Some (TextFile ''stale'')
   \<and> fst (run healthy_env (disk_with empty_document)) = Inr ()
   \<and> fs (snd (run healthy_env (disk_with empty_document))) output_path = Some (TextFile [])
   \<and> stdout (snd (run healthy_env (disk_with empty_document))) = [success_message]"
proof -
  have a: "docx_installed healthy_env" and b: "output_writable healthy_env"
    and u: "stdout_unicode healthy_env"
    by (simp_all add: healthy_env_def)
  have c: "disk_with empty_document input_path = Some (DocxFile empty_document)"
    by (rule disk_with_input)
  have d: "disk_with empty_document output_path = Some (TextFile ''stale'')"
    by (simp add: disk_with_def)
  have e: "paragraphs empty_document = [] \<and> tables empty_document = []"
    by (simp add: empty_document_def)
  show ?thesis
    using a b u c d e
      empty_document_overwrites [of healthy_env "disk_with empty_document" empty_document None]
    by blast
qed

text \<open>
  Claim C10 as written fails on a host with the library whose standard output is
  encoded in cp1252: the empty output file is written over the stale one, and then the
  \<^verbatim>\<open>print\<close> of the success message raises, so that no message is printed.
\<close>

theorem empty_document_overwrites_counterexample:
  "docx_installed cp1252_env \<and> output_writable cp1252_env
   \<and> disk_with empty_document input_path = Some (DocxFile empty_document)
   \<and> fs (snd (run cp1252_env (disk_with empty_document))) output_path = Some (TextFile [])
   \<and> fst (run cp1252_env (disk_with empty_document)) = Inl UnicodeEncodeError
   \<and> stdout (snd (run cp1252_env (disk_with empty_document))) = []"
proof -
  have a: "docx_installed cp1252_env" and b: "output_writable cp1252_env"
    and u: "\<not> stdout_unicode cp1252_env"
    by (simp_all add: cp1252_env_def healthy_env_def)
  have c: "disk_with empty_document input_path = Some (DocxFile empty_document)"
    by (rule disk_with_input)
  have r: "records empty_document = []"
    by (simp add: records_def empty_document_def)
  have t: "accepted_text cp1252_env empty_document = []"
    by (simp add: accepted_text_def r)
  have k: "accepted cp1252_env 0 [] = 0"
    by (simp add: accepted_def split: option.splits)
  have s: "stored cp1252_env [] = []"
    by (simp add: stored_def split: option.splits)
  show ?thesis
    using a b c u
    by (simp add: run_writable [of cp1252_env "disk_with empty_document" empty_document]
        r t k s)
qed

end
